theory Spec2Isabelle
  imports Complex_Main
begin

section \<open>Python strings\<close>

text \<open>
  A Python \<^verbatim>\<open>str\<close> is a sequence of Unicode code points, so it is modelled as a list of
  natural numbers.  ASCII literals are written with \<open>ascii\<close>; text outside ASCII is written
  as its code points.  A text decoded from JSON may hold lone surrogates (the code points
  from U+D800 to U+DFFF): such a text cannot be encoded as UTF-8.
\<close>

type_synonym ustr = "nat list"

abbreviation ascii :: "string \<Rightarrow> ustr" where
  "ascii s \<equiv> map of_char s"

text \<open>\<^verbatim>\<open>str.isspace\<close> of one code point: the set that \<^verbatim>\<open>strip()\<close> and \<^verbatim>\<open>split()\<close> use.\<close>

definition isspace :: "nat \<Rightarrow> bool" where
  "isspace c \<longleftrightarrow>
     (9 \<le> c \<and> c \<le> 13) \<or> (28 \<le> c \<and> c \<le> 32) \<or> c = 0x85 \<or> c = 0xA0 \<or> c = 0x1680 \<or>
     (0x2000 \<le> c \<and> c \<le> 0x200A) \<or> c = 0x2028 \<or> c = 0x2029 \<or> c = 0x202F \<or>
     c = 0x205F \<or> c = 0x3000"

definition py_strip :: "ustr \<Rightarrow> ustr" where
  "py_strip s = rev (dropWhile isspace (rev (dropWhile isspace s)))"

text \<open>\<^verbatim>\<open>str.split()\<close> with no separator: the maximal runs of non-space code points.\<close>

fun split_acc :: "ustr \<Rightarrow> ustr \<Rightarrow> ustr list" where
  "split_acc cur [] = (if cur = [] then [] else [cur])"
| "split_acc cur (c # cs) =
     (if isspace c then (if cur = [] then split_acc [] cs else cur # split_acc [] cs)
      else split_acc (cur @ [c]) cs)"

definition py_split :: "ustr \<Rightarrow> ustr list" where
  "py_split s = split_acc [] s"

text \<open>
  \<^verbatim>\<open>str.lower()\<close>.  Only two code points outside ASCII lower to a string with an ASCII
  letter in it (U+0130 and U+212A); every other cased letter outside ASCII lowers to
  letters outside ASCII and is left as it is here.  The program only compares lowered
  text with keywords made of ASCII letters, \<open>_\<close>, \<open>/\<close> and uncased CJK ideographs, and
  on those comparisons the two functions agree.
\<close>

definition lower_char :: "nat \<Rightarrow> ustr" where
  "lower_char c =
     (if 65 \<le> c \<and> c \<le> 90 then [c + 32]
      else if c = 0x212A then [107]
      else if c = 0x130 then [105, 0x307]
      else [c])"

definition py_lower :: "ustr \<Rightarrow> ustr" where
  "py_lower s = concat (map lower_char s)"

text \<open>\<^verbatim>\<open>sep.join(xs)\<close>.\<close>

fun py_join :: "ustr \<Rightarrow> ustr list \<Rightarrow> ustr" where
  "py_join sep [] = []"
| "py_join sep [x] = x"
| "py_join sep (x # y # ys) = x @ sep @ py_join sep (y # ys)"

text \<open>Whether \<^verbatim>\<open>s.encode("utf-8")\<close> succeeds: no code point of \<open>s\<close> is a surrogate.\<close>

definition is_surrogate :: "nat \<Rightarrow> bool" where
  "is_surrogate c \<longleftrightarrow> 0xD800 \<le> c \<and> c \<le> 0xDFFF"

definition encodable :: "ustr \<Rightarrow> bool" where
  "encodable s \<longleftrightarrow> list_all (\<lambda>c. \<not> is_surrogate c) s"

definition startswith :: "ustr \<Rightarrow> ustr \<Rightarrow> bool" where
  "startswith s p \<longleftrightarrow> take (length p) s = p"

text \<open>\<^verbatim>\<open>str(n)\<close> of an integer.\<close>

fun digits_of :: "nat \<Rightarrow> ustr" where
  "digits_of n = (if n < 10 then [48 + n] else digits_of (n div 10) @ [48 + n mod 10])"

declare digits_of.simps [simp del]

definition py_str_int :: "int \<Rightarrow> ustr" where
  "py_str_int i = (if i < 0 then 45 # digits_of (nat (- i)) else digits_of (nat i))"

subsection \<open>Decimal digits\<close>

text \<open>
  The code points of general category Nd come in runs of ten; \<open>digit_zeros\<close> lists the
  zero of each run (Unicode 14).  \<^verbatim>\<open>int()\<close> and \<^verbatim>\<open>float()\<close> first replace every such
  digit by its ASCII digit, every other space by a blank and any other code point from
  127 on by a question mark.
\<close>

definition digit_zeros :: "nat list" where
  "digit_zeros =
     [0x30, 0x660, 0x6F0, 0x7C0, 0x966, 0x9E6, 0xA66, 0xAE6, 0xB66, 0xBE6, 0xC66, 0xCE6,
      0xD66, 0xDE6, 0xE50, 0xED0, 0xF20, 0x1040, 0x1090, 0x17E0, 0x1810, 0x1946, 0x19D0,
      0x1A80, 0x1A90, 0x1B50, 0x1BB0, 0x1C40, 0x1C50, 0xA620, 0xA8D0, 0xA900, 0xA9D0,
      0xA9F0, 0xAA50, 0xABF0, 0xFF10, 0x104A0, 0x10D30, 0x11066, 0x110F0, 0x11136,
      0x111D0, 0x112F0, 0x11450, 0x114D0, 0x11650, 0x116C0, 0x11730, 0x118E0, 0x11950,
      0x11C50, 0x11D50, 0x11DA0, 0x16A60, 0x16AC0, 0x16B50, 0x1D7CE, 0x1D7D8, 0x1D7E2,
      0x1D7EC, 0x1D7F6, 0x1E140, 0x1E2F0, 0x1E950, 0x1FBF0]"

definition decimal_value :: "nat \<Rightarrow> nat option" where
  "decimal_value c =
     (case filter (\<lambda>z. z \<le> c \<and> c < z + 10) digit_zeros of
        [] \<Rightarrow> None
      | z # _ \<Rightarrow> Some (c - z))"

definition to_ascii :: "nat \<Rightarrow> nat" where
  "to_ascii c =
     (if c < 127 then c
      else if isspace c then 32
      else (case decimal_value c of Some d \<Rightarrow> 48 + d | None \<Rightarrow> 63))"

definition is_digit :: "nat \<Rightarrow> bool" where
  "is_digit c \<longleftrightarrow> 48 \<le> c \<and> c \<le> 57"

definition c_isspace :: "nat \<Rightarrow> bool" where
  "c_isspace c \<longleftrightarrow> (9 \<le> c \<and> c \<le> 13) \<or> c = 32"

definition c_strip :: "ustr \<Rightarrow> ustr" where
  "c_strip s = rev (dropWhile c_isspace (rev (dropWhile c_isspace s)))"

text \<open>
  Underscores in a numeric literal: each one stands between two digits.  The result is
  the literal without them, or \<open>None\<close> for a misplaced underscore.
\<close>

fun strip_underscores :: "nat \<Rightarrow> ustr \<Rightarrow> ustr option" where
  "strip_underscores prev [] = (if prev = 95 then None else Some [])"
| "strip_underscores prev (c # cs) =
     (if c = 95 then (if is_digit prev then strip_underscores c cs else None)
      else if prev = 95 \<and> \<not> is_digit c then None
      else map_option ((#) c) (strip_underscores c cs))"

text \<open>The value of a string of ASCII digits, most significant first.\<close>

definition digits_value :: "ustr \<Rightarrow> nat" where
  "digits_value ds = foldl (\<lambda>acc c. 10 * acc + (c - 48)) 0 ds"

text \<open>An optional sign: whether it is a minus, and the rest.\<close>

fun take_sign :: "ustr \<Rightarrow> bool \<times> ustr" where
  "take_sign [] = (False, [])"
| "take_sign (c # cs) =
     (if c = 45 then (True, cs) else if c = 43 then (False, cs) else (False, c # cs))"

text \<open>\<^verbatim>\<open>int(s)\<close> in base ten; \<open>None\<close> is \<^verbatim>\<open>ValueError\<close>.\<close>

definition py_int :: "ustr \<Rightarrow> int option" where
  "py_int s =
     (let (neg, body) = take_sign (c_strip (map to_ascii s)) in
      case strip_underscores 0 body of
        None \<Rightarrow> None
      | Some ds \<Rightarrow>
          if ds = [] \<or> \<not> list_all is_digit ds then None
          else Some (if neg then - int (digits_value ds) else int (digits_value ds)))"


subsection \<open>Floating-point numbers\<close>

text \<open>
  A Python \<^verbatim>\<open>float\<close> is an IEEE binary64 number.  \<open>Finite neg m k\<close> is
  \<open>(-1)\<^bsup>neg\<^esup> * m * 2\<^bsup>k\<^esup>\<close> with \<open>m\<close> odd, or \<open>m = 0\<close> and \<open>k = 0\<close> for the two zeros;
  the exponent range and the 53 bits of precision are kept by \<open>to_double\<close>, which
  builds every finite value.
\<close>

datatype pyfloat = Finite bool nat int | Infinity bool | NaN

text \<open>\<^verbatim>\<open>x < 0\<close> and \<^verbatim>\<open>x >= 0\<close>: both are false of NaN, and minus zero is not below zero.\<close>

fun float_lt_zero :: "pyfloat \<Rightarrow> bool" where
  "float_lt_zero (Finite neg m k) = (neg \<and> 0 < m)"
| "float_lt_zero (Infinity neg) = neg"
| "float_lt_zero NaN = False"

fun float_ge_zero :: "pyfloat \<Rightarrow> bool" where
  "float_ge_zero (Finite neg m k) = (\<not> neg \<or> m = 0)"
| "float_ge_zero (Infinity neg) = (\<not> neg)"
| "float_ge_zero NaN = False"

fun bit_length :: "nat \<Rightarrow> nat" where
  "bit_length n = (if n = 0 then 0 else Suc (bit_length (n div 2)))"

declare bit_length.simps [simp del]

fun norm2 :: "nat \<Rightarrow> int \<Rightarrow> nat \<times> int" where
  "norm2 m k =
     (if m = 0 then (0, 0) else if even m then norm2 (m div 2) (k + 1) else (m, k))"

declare norm2.simps [simp del]

text \<open>The integer nearest to \<open>n / d\<close>, ties to the even one.\<close>

definition round_half_even :: "nat \<Rightarrow> nat \<Rightarrow> nat" where
  "round_half_even n d =
     (let q = n div d; r = n mod d
      in if 2 * r < d then q else if d < 2 * r then q + 1
         else if even q then q else q + 1)"

text \<open>
  The binary64 number nearest to \<open>n / d\<close> (for \<open>d > 0\<close>), ties to even, with gradual
  underflow and overflow to infinity: what the correctly rounded \<^verbatim>\<open>strtod\<close> of CPython
  returns.  \<open>e\<close> is the binary exponent of \<open>n / d\<close>, \<open>2\<^bsup>k\<^esup>\<close> the spacing of the doubles there.
\<close>

definition to_double :: "bool \<Rightarrow> nat \<Rightarrow> nat \<Rightarrow> pyfloat" where
  "to_double neg n d =
     (if n = 0 then Finite neg 0 0
      else
        let e0 = int (bit_length n) - int (bit_length d);
            e = (if (if 0 \<le> e0 then d * 2 ^ nat e0 \<le> n else d \<le> n * 2 ^ nat (- e0))
                 then e0 else e0 - 1);
            ex = max e (- 1022);
            k = ex - 52;
            m = (if 0 \<le> k then round_half_even n (d * 2 ^ nat k)
                 else round_half_even (n * 2 ^ nat (- k)) d)
        in if 1023 < ex \<or> (ex = 1023 \<and> 2 ^ 53 \<le> m) then Infinity neg
           else (case norm2 m k of (m', k') \<Rightarrow> Finite neg m' k'))"

definition ascii_lower :: "nat \<Rightarrow> nat" where
  "ascii_lower c = (if 65 \<le> c \<and> c \<le> 90 then c + 32 else c)"

definition parse_inf_or_nan :: "ustr \<Rightarrow> pyfloat option" where
  "parse_inf_or_nan s =
     (let (neg, body) = take_sign s; w = map ascii_lower body
      in if w = ascii ''inf'' \<or> w = ascii ''infinity'' then Some (Infinity neg)
         else if w = ascii ''nan'' then Some NaN
         else None)"

text \<open>The exponent part of a decimal literal: empty, or \<open>e\<close>, an optional sign and digits.\<close>

fun parse_exponent :: "ustr \<Rightarrow> int option" where
  "parse_exponent [] = Some 0"
| "parse_exponent (c # cs) =
     (if c = 101 \<or> c = 69 then
        (let (neg, ds) = take_sign cs
         in if ds = [] \<or> \<not> list_all is_digit ds then None
            else Some (if neg then - int (digits_value ds) else int (digits_value ds)))
      else None)"

definition parse_decimal :: "ustr \<Rightarrow> pyfloat option" where
  "parse_decimal s =
     (let (neg, s1) = take_sign s;
          ip = takeWhile is_digit s1;
          s2 = dropWhile is_digit s1;
          (fp, s3) = (case s2 of
                        [] \<Rightarrow> ([], [])
                      | c # cs \<Rightarrow>
                          if c = 46 then (takeWhile is_digit cs, dropWhile is_digit cs)
                          else ([], s2))
      in if ip = [] \<and> fp = [] then None
         else (case parse_exponent s3 of
                 None \<Rightarrow> None
               | Some ex \<Rightarrow>
                   let mant = digits_value (ip @ fp); x = ex - int (length fp)
                   in Some (if 0 \<le> x then to_double neg (mant * 10 ^ nat x) 1
                            else to_double neg mant (10 ^ nat (- x)))))"

text \<open>\<^verbatim>\<open>float(s)\<close>; \<open>None\<close> is \<^verbatim>\<open>ValueError\<close>.\<close>

definition py_float :: "ustr \<Rightarrow> pyfloat option" where
  "py_float s =
     (case strip_underscores 0 (c_strip (map to_ascii s)) of
        None \<Rightarrow> None
      | Some b \<Rightarrow>
          (case parse_decimal b of
             Some x \<Rightarrow> Some x
           | None \<Rightarrow> parse_inf_or_nan b))"


text \<open>
  \<^verbatim>\<open>f"{x:.2f}"\<close>: the exact value rounded to two decimals, ties to even; the sign is
  kept when the digits round to zero.
\<close>

definition two_digits :: "nat \<Rightarrow> ustr" where
  "two_digits n = [48 + n div 10, 48 + n mod 10]"

fun format_2f :: "pyfloat \<Rightarrow> ustr" where
  "format_2f NaN = ascii ''nan''"
| "format_2f (Infinity neg) = (if neg then ascii ''-inf'' else ascii ''inf'')"
| "format_2f (Finite neg m k) =
     (let cents = (if 0 \<le> k then 100 * m * 2 ^ nat k
                   else round_half_even (100 * m) (2 ^ nat (- k)))
      in (if neg then ascii ''-'' else []) @ digits_of (cents div 100) @ ascii ''.'' @
         two_digits (cents mod 100))"

section \<open>Constants of the application\<close>

definition DEFAULT_TELEGRAM_POLL_INTERVAL :: int where
  "DEFAULT_TELEGRAM_POLL_INTERVAL = 5"

text \<open>
  The fourteen category labels, in the order of the source: dining, transport, shopping,
  housing, utilities, telecom, medical, education, entertainment, travel, salary, bonus,
  investment income, other.
\<close>

definition ALLOWED_CATEGORIES :: "ustr list" where
  "ALLOWED_CATEGORIES =
     [[0x9910, 0x996E], [0x4EA4, 0x901A], [0x8D2D, 0x7269], [0x4F4F, 0x623F],
      [0x6C34, 0x7535, 0x71C3, 0x6C14], [0x901A, 0x8BAF], [0x533B, 0x7597],
      [0x6559, 0x80B2], [0x5A31, 0x4E50], [0x65C5, 0x884C], [0x5DE5, 0x8D44],
      [0x5956, 0x91D1], [0x7406, 0x8D22, 0x6536, 0x76CA], [0x5176, 0x4ED6]]"

text \<open>The two transaction types, and their labels in a confirmation.\<close>

definition expense :: ustr where "expense = ascii ''expense''"
definition income :: ustr where "income = ascii ''income''"
definition label_expense :: ustr where "label_expense = [0x652F, 0x51FA]"
definition label_income :: ustr where "label_income = [0x6536, 0x5165]"

text \<open>The messages of the parser, in the order in which the source returns them.\<close>

definition msg_empty :: ustr where
  \<comment> \<open>the message is empty, send a recording command\<close>
  "msg_empty =
     [0x6D88, 0x606F, 0x4E3A, 0x7A7A, 0xFF0C, 0x8BF7, 0x53D1, 0x9001, 0x8BB0, 0x8D26,
      0x547D, 0x4EE4, 0x3002]"

definition msg_format :: ustr where
  \<comment> \<open>format error, with the example of a direct command\<close>
  "msg_format =
     [0x683C, 0x5F0F, 0x9519, 0x8BEF, 0x3002, 0x793A, 0x4F8B, 0xFF1A] @
     ascii ''/expense 32.5 '' @ [0x9910, 0x996E] @ ascii '' '' @ [0x5348, 0x996D]"

definition msg_format_add :: ustr where
  \<comment> \<open>format error, with the example of an add command\<close>
  "msg_format_add =
     [0x683C, 0x5F0F, 0x9519, 0x8BEF, 0x3002, 0x793A, 0x4F8B, 0xFF1A] @
     ascii ''/add '' @ [0x652F, 0x51FA] @ ascii '' 32.5 '' @ [0x9910, 0x996E] @
     ascii '' '' @ [0x5348, 0x996D]"

definition msg_unsupported :: ustr where
  \<comment> \<open>unsupported command, use /expense or /income\<close>
  "msg_unsupported =
     [0x4E0D, 0x652F, 0x6301, 0x7684, 0x547D, 0x4EE4, 0x3002, 0x8BF7, 0x4F7F, 0x7528] @
     ascii '' /expense '' @ [0x6216] @ ascii '' /income'' @ [0x3002]"

definition msg_not_a_number :: ustr where
  \<comment> \<open>the amount must be a number\<close>
  "msg_not_a_number = [0x91D1, 0x989D, 0x5FC5, 0x987B, 0x662F, 0x6570, 0x5B57, 0x3002]"

definition msg_negative :: ustr where
  \<comment> \<open>the amount must not be below 0\<close>
  "msg_negative =
     [0x91D1, 0x989D, 0x4E0D, 0x80FD, 0x5C0F, 0x4E8E] @ ascii '' 0'' @ [0x3002]"

definition msg_category :: ustr where
  \<comment> \<open>invalid category, followed by the allowed ones\<close>
  "msg_category =
     [0x5206, 0x7C7B, 0x65E0, 0x6548, 0x3002, 0x53EF, 0x7528, 0x5206, 0x7C7B, 0xFF1A] @
     py_join (ascii '', '') ALLOWED_CATEGORIES"

text \<open>The replies of the message handler.\<close>

definition msg_myid :: "int \<Rightarrow> ustr" where
  \<comment> \<open>current chat id: n\<close>
  "msg_myid chat_id = [0x5F53, 0x524D] @ ascii '' chat id: '' @ py_str_int chat_id"

definition msg_unauthorized :: "int \<Rightarrow> ustr" where
  \<comment> \<open>unauthorized chat, current chat id: n, bind it in the settings and retry\<close>
  "msg_unauthorized chat_id =
     [0x672A, 0x6388, 0x6743, 0x804A, 0x5929, 0x3002, 0x5F53, 0x524D] @
     ascii '' chat id: '' @ py_str_int chat_id @
     [0xFF0C, 0x8BF7, 0x5728, 0x7CFB, 0x7EDF, 0x914D, 0x7F6E, 0x4E2D, 0x7ED1, 0x5B9A,
      0x540E, 0x518D, 0x8BD5, 0x3002]"

definition msg_help :: ustr where
  \<comment> \<open>the two direct commands, and one example\<close>
  "msg_help =
     [0x8BB0, 0x8D26, 0x547D, 0x4EE4] @ ascii '':'' @ [0xA] @ ascii ''/expense '' @
     [0x91D1, 0x989D] @ ascii '' '' @ [0x5206, 0x7C7B] @ ascii '' '' @
     [0x5907, 0x6CE8, 0xA] @ ascii ''/income '' @ [0x91D1, 0x989D] @ ascii '' '' @
     [0x5206, 0x7C7B] @ ascii '' '' @ [0x5907, 0x6CE8, 0xA, 0x793A, 0x4F8B] @
     ascii '': /expense 32.5 '' @ [0x9910, 0x996E] @ ascii '' '' @ [0x5348, 0x996D]"

definition msg_recorded :: "ustr \<Rightarrow> pyfloat \<Rightarrow> ustr \<Rightarrow> ustr" where
  \<comment> \<open>recorded: label, amount in yen notation, category\<close>
  "msg_recorded tx_text amount category =
     [0x5DF2, 0x8BB0, 0x8D26] @ ascii '': '' @ tx_text @ ascii '' '' @ [0xA5] @
     format_2f amount @ ascii '' / '' @ category"

text \<open>The keys of the configuration table.\<close>

definition telegram_enabled :: ustr where
  "telegram_enabled = ascii ''telegram_enabled''"
definition telegram_bot_token :: ustr where
  "telegram_bot_token = ascii ''telegram_bot_token''"
definition telegram_allowed_chat_id :: ustr where
  "telegram_allowed_chat_id = ascii ''telegram_allowed_chat_id''"
definition telegram_poll_interval :: ustr where
  "telegram_poll_interval = ascii ''telegram_poll_interval''"
definition telegram_last_update_id :: ustr where
  "telegram_last_update_id = ascii ''telegram_last_update_id''"

section \<open>The command parser\<close>

record transaction =
  tx_type :: ustr
  tx_amount :: pyfloat
  tx_category :: ustr
  tx_note :: ustr
  tx_happened_on :: ustr

text \<open>
  \<^verbatim>\<open>parse_telegram_transaction\<close> returns a pair: \<^verbatim>\<open>(None, message)\<close> is \<open>ParseError\<close>,
  \<^verbatim>\<open>("help", "")\<close> is \<open>HelpMarker\<close> and \<^verbatim>\<open>(dict, "")\<close> is \<open>Parsed\<close>.
\<close>

datatype parse_result = ParseError ustr | HelpMarker | Parsed transaction

definition type_map :: "ustr \<rightharpoonup> ustr" where
  "type_map =
     map_of
       [(ascii ''expense'', expense),
        (ascii ''income'', income),
        (ascii ''add_expense'', expense),
        (ascii ''add_income'', income),
        ([0x652F, 0x51FA], expense),
        ([0x6536, 0x5165], income)]"

text \<open>
  The parser is written in two parts.  \<open>parse_parts\<close> is the function from the command
  token on, on the tokens of the line; \<open>parse_telegram_transaction\<close> trims the text,
  drops one leading slash, splits and hands over.  The first argument is
  \<^verbatim>\<open>date.today().isoformat()\<close>, the one reading of the clock that the function makes.
\<close>

definition parse_parts :: "ustr \<Rightarrow> ustr list \<Rightarrow> parse_result" where
  "parse_parts today parts0 =
     (let cmd0 = py_lower (parts0 ! 0) in
      if cmd0 = ascii ''help'' \<or> cmd0 = ascii ''start'' then HelpMarker
      else if length parts0 < 3 then ParseError msg_format
      else if cmd0 = ascii ''add'' \<and> length parts0 < 4 then ParseError msg_format_add
      else
        let (cmd, parts) =
              (if cmd0 = ascii ''add'' then (py_lower (parts0 ! 1), drop 1 parts0)
               else (cmd0, parts0))
        in
        (case type_map cmd of
           None \<Rightarrow> ParseError msg_unsupported
         | Some ty \<Rightarrow>
             if ty = [] then ParseError msg_unsupported
             else
               (case py_float (parts ! 1) of
                  None \<Rightarrow> ParseError msg_not_a_number
                | Some amount \<Rightarrow>
                    if float_lt_zero amount then ParseError msg_negative
                    else
                      let category = parts ! 2 in
                      if category \<notin> set ALLOWED_CATEGORIES then ParseError msg_category
                      else
                        let note = (if 3 < length parts
                                    then py_strip (py_join (ascii '' '') (drop 3 parts))
                                    else [])
                        in Parsed \<lparr>tx_type = ty, tx_amount = amount,
                                   tx_category = category, tx_note = note,
                                   tx_happened_on = today\<rparr>)))"

definition parse_telegram_transaction :: "ustr \<Rightarrow> ustr \<Rightarrow> parse_result" where
  "parse_telegram_transaction today text0 =
     (let line = py_strip text0 in
      if line = [] then ParseError msg_empty
      else
        let normalized = (if startswith line (ascii ''/'') then drop 1 line else line);
            parts = py_split normalized
        in if parts = [] then ParseError msg_empty else parse_parts today parts)"

section \<open>The stores and the outgoing messages\<close>

text \<open>
  One row of the table \<^verbatim>\<open>transactions\<close> (the key is left out), the two tables, and the
  \<^verbatim>\<open>sendMessage\<close> requests made so far: bot token, chat id and text.
\<close>

record tx_row = transaction +
  tx_created_at :: ustr

record world =
  app_config :: "ustr \<rightharpoonup> ustr"
  transactions :: "tx_row list"
  sent :: "(ustr \<times> int \<times> ustr) list"

text \<open>The two readings of the clock: \<^verbatim>\<open>date.today()\<close> and \<^verbatim>\<open>datetime.now()\<close>, in ISO format.\<close>

record clock =
  date_today :: ustr
  datetime_now :: ustr

definition get_config :: "world \<Rightarrow> ustr \<Rightarrow> ustr \<Rightarrow> ustr" where
  "get_config w key dflt = (case app_config w key of None \<Rightarrow> dflt | Some v \<Rightarrow> v)"

definition set_config :: "world \<Rightarrow> ustr \<Rightarrow> ustr \<Rightarrow> world" where
  "set_config w key v = w\<lparr>app_config := (app_config w)(key \<mapsto> v)\<rparr>"

text \<open>
  The insert binds its six parameters and then runs.  Binding a text that cannot be
  encoded as UTF-8 raises \<^verbatim>\<open>UnicodeEncodeError\<close>.  Running fails where the constraints of
  the table do: \<^verbatim>\<open>type TEXT NOT NULL CHECK(type IN ('income', 'expense'))\<close> and
  \<^verbatim>\<open>amount REAL NOT NULL CHECK(amount >= 0)\<close>; SQLite binds a NaN as NULL, so a NaN
  amount breaks \<^verbatim>\<open>NOT NULL\<close>.  That is \<^verbatim>\<open>sqlite3.IntegrityError\<close>.  An exception leaves the
  tables as they were; it is returned with the world at that moment.  A column of type
  REAL keeps every float but minus zero, which it stores as zero.
\<close>

datatype error = IntegrityError | UnicodeEncodeError

type_synonym 'a raising = "(error \<times> world) + 'a"

fun stored_real :: "pyfloat \<Rightarrow> pyfloat" where
  "stored_real (Finite neg m k) = (if m = 0 then Finite False 0 0 else Finite neg m k)"
| "stored_real (Infinity neg) = Infinity neg"
| "stored_real NaN = NaN"

definition add_transaction_record ::
  "clock \<Rightarrow> world \<Rightarrow> ustr \<Rightarrow> pyfloat \<Rightarrow> ustr \<Rightarrow> ustr \<Rightarrow> ustr \<Rightarrow> world raising" where
  "add_transaction_record clk w ty amount category note happened_on =
     (if \<not> list_all encodable [ty, category, note, happened_on, datetime_now clk]
      then Inl (UnicodeEncodeError, w)
      else if (ty \<noteq> income \<and> ty \<noteq> expense) \<or> \<not> float_ge_zero amount
      then Inl (IntegrityError, w)
      else Inr (w\<lparr>transactions := transactions w @
                  [\<lparr>tx_type = ty, tx_amount = stored_real amount, tx_category = category,
                    tx_note = note, tx_happened_on = happened_on,
                    tx_created_at = datetime_now clk\<rparr>]\<rparr>))"

text \<open>
  \<^verbatim>\<open>send_telegram_message\<close> makes the request and swallows a transport failure: either
  way the caller goes on, and the request is recorded as made.
\<close>

definition send_telegram_message :: "world \<Rightarrow> ustr \<Rightarrow> int \<Rightarrow> ustr \<Rightarrow> world" where
  "send_telegram_message w token chat_id txt = w\<lparr>sent := sent w @ [(token, chat_id, txt)]\<rparr>"

section \<open>The message handler\<close>

text \<open>
  An incoming message as the handler reads it: \<^verbatim>\<open>message.get("text", "")\<close> and
  \<^verbatim>\<open>message.get("chat", {}).get("id")\<close>; \<open>None\<close> is an absent key.
\<close>

record chat =
  chat_id :: "int option"

record message =
  msg_text :: "ustr option"
  msg_chat :: "chat option"

text \<open>
  The handler from the call of the parser on: the reply to a help request or to a
  parse error, or the insert and its confirmation.
\<close>

definition record_parsed :: "clock \<Rightarrow> world \<Rightarrow> ustr \<Rightarrow> int \<Rightarrow> ustr \<Rightarrow> world raising" where
  "record_parsed clk w token c text0 =
     (case parse_telegram_transaction (date_today clk) text0 of
        HelpMarker \<Rightarrow> Inr (send_telegram_message w token c msg_help)
      | ParseError err \<Rightarrow> Inr (send_telegram_message w token c err)
      | Parsed p \<Rightarrow>
          (case add_transaction_record clk w (tx_type p) (tx_amount p) (tx_category p)
                  (tx_note p) (tx_happened_on p) of
             Inl e \<Rightarrow> Inl e
           | Inr w' \<Rightarrow>
               Inr (send_telegram_message w' token c
                      (msg_recorded
                         (if tx_type p = income then label_income else label_expense)
                         (tx_amount p) (tx_category p)))))"

definition handle_telegram_message :: "clock \<Rightarrow> world \<Rightarrow> ustr \<Rightarrow> message \<Rightarrow> world raising" where
  "handle_telegram_message clk w token msg =
     (let text0 = (case msg_text msg of None \<Rightarrow> [] | Some t \<Rightarrow> t);
          cid = (case msg_chat msg of None \<Rightarrow> None | Some c \<Rightarrow> chat_id c)
      in
      case cid of
        None \<Rightarrow> Inr w
      | Some c \<Rightarrow>
          let normalized_text = py_lower (py_strip text0) in
          if normalized_text = ascii ''/myid'' \<or> normalized_text = ascii ''myid''
          then Inr (send_telegram_message w token c (msg_myid c))
          else
            let allowed_chat_id = py_strip (get_config w telegram_allowed_chat_id []) in
            if allowed_chat_id \<noteq> [] \<and> py_str_int c \<noteq> allowed_chat_id
            then Inr (send_telegram_message w token c (msg_unauthorized c))
            else record_parsed clk w token c text0)"

section \<open>The polling loop\<close>

record update =
  update_id :: "int option"
  message :: "message option"

text \<open>
  What \<^verbatim>\<open>getUpdates\<close> gives: a transport failure or a body that is not JSON, or the
  fields \<^verbatim>\<open>ok\<close> and \<^verbatim>\<open>result\<close> of the body.
\<close>

datatype fetch_result = TransportError | Response bool "update list"

text \<open>The body of the \<^verbatim>\<open>for\<close> loop, and the loop over the updates of one response.\<close>

definition process_update :: "clock \<Rightarrow> ustr \<Rightarrow> world \<Rightarrow> update \<Rightarrow> world raising" where
  "process_update clk token w u =
     (let w1 = (case update_id u of
                  Some i \<Rightarrow> set_config w telegram_last_update_id (py_str_int i)
                | None \<Rightarrow> w)
      in case message u of
           None \<Rightarrow> Inr w1
         | Some m \<Rightarrow> handle_telegram_message clk w1 token m)"

fun process_updates :: "clock \<Rightarrow> ustr \<Rightarrow> world \<Rightarrow> update list \<Rightarrow> world raising" where
  "process_updates clk token w [] = Inr w"
| "process_updates clk token w (u # us) =
     (case process_update clk token w u of
        Inl e \<Rightarrow> Inl e
      | Inr w' \<Rightarrow> process_updates clk token w' us)"

text \<open>
  One turn of \<^verbatim>\<open>while True\<close>.  \<open>fetch token offset\<close> is the answer of the remote API to
  the request of this turn; the turn ends in \<^verbatim>\<open>time.sleep(n); continue\<close> (\<open>Sleep n\<close>) or
  at the end of the body (\<open>Next\<close>).  An exception ends the loop and the thread.
\<close>

datatype turn = Sleep int | Next

text \<open>The two integers read from the configuration; a malformed one gives the default.\<close>

definition read_poll_interval :: "world \<Rightarrow> int" where
  "read_poll_interval w =
     max 2 (case py_int (get_config w telegram_poll_interval
                           (py_str_int DEFAULT_TELEGRAM_POLL_INTERVAL)) of
              None \<Rightarrow> DEFAULT_TELEGRAM_POLL_INTERVAL
            | Some n \<Rightarrow> n)"

definition read_last_update_id :: "world \<Rightarrow> int" where
  "read_last_update_id w =
     (case py_int (get_config w telegram_last_update_id (ascii ''0'')) of
        None \<Rightarrow> 0
      | Some n \<Rightarrow> n)"

definition poll_iteration ::
  "clock \<Rightarrow> (ustr \<Rightarrow> int \<Rightarrow> fetch_result) \<Rightarrow> world \<Rightarrow> (turn \<times> world) raising" where
  "poll_iteration clk fetch w =
     (let enabled = (get_config w telegram_enabled (ascii ''0'') = ascii ''1'');
          token = py_strip (get_config w telegram_bot_token [])
      in
      if \<not> enabled \<or> token = [] then Inr (Sleep 3, w)
      else
        let poll_interval = read_poll_interval w;
            last_update_id = read_last_update_id w
        in
        case fetch token (last_update_id + 1) of
          TransportError \<Rightarrow> Inr (Sleep poll_interval, w)
        | Response ok result \<Rightarrow>
            if \<not> ok then Inr (Sleep poll_interval, w)
            else
              (case process_updates clk token w result of
                 Inl e \<Rightarrow> Inl e
               | Inr w' \<Rightarrow> Inr (Next, w')))"

section \<open>Starting the poller\<close>

text \<open>
  The threads created so far, each with its \<^verbatim>\<open>is_alive()\<close>, and the global
  \<^verbatim>\<open>telegram_thread\<close>.  \<^verbatim>\<open>start_telegram_poller\<close> runs under \<^verbatim>\<open>telegram_lock\<close>, so two
  calls never overlap: it is one step.  A thread that stops is the other step.
\<close>

record poller =
  threads :: "bool list"
  telegram_thread :: "nat option"

definition start_telegram_poller :: "poller \<Rightarrow> poller" where
  "start_telegram_poller p =
     (if (case telegram_thread p of None \<Rightarrow> False | Some t \<Rightarrow> threads p ! t) then p
      else p\<lparr>threads := threads p @ [True], telegram_thread := Some (length (threads p))\<rparr>)"

definition thread_exit :: "nat \<Rightarrow> poller \<Rightarrow> poller" where
  "thread_exit t p = p\<lparr>threads := (threads p)[t := False]\<rparr>"

datatype event = Start | Exit nat

fun run_events :: "poller \<Rightarrow> event list \<Rightarrow> poller" where
  "run_events p [] = p"
| "run_events p (Start # es) = run_events (start_telegram_poller p) es"
| "run_events p (Exit t # es) = run_events (thread_exit t p) es"

definition initial_poller :: poller where
  "initial_poller = \<lparr>threads = [], telegram_thread = None\<rparr>"

definition alive_threads :: "poller \<Rightarrow> nat" where
  "alive_threads p = length (filter (\<lambda>a. a) (threads p))"

section \<open>The settings form\<close>

text \<open>
  The POST branch of \<^verbatim>\<open>settings\<close>: the only writer of the three keys.  The arguments
  are the fields of the form: whether \<^verbatim>\<open>telegram_enabled\<close> is \<^verbatim>\<open>on\<close>, and the two texts.
\<close>

definition save_settings :: "world \<Rightarrow> bool \<Rightarrow> ustr \<Rightarrow> ustr \<Rightarrow> world" where
  "save_settings w enabled_on bot_token allowed_chat_id =
     (let w1 = set_config w telegram_enabled (if enabled_on then ascii ''1'' else ascii ''0'');
          w2 = set_config w1 telegram_bot_token (py_strip bot_token)
      in set_config w2 telegram_allowed_chat_id (py_strip allowed_chat_id))"

section \<open>Notions used in the statements\<close>

text \<open>The tokens of a text: what the parser splits it into.\<close>

definition tokens :: "ustr \<Rightarrow> ustr list" where
  "tokens text0 =
     (let line = py_strip text0
      in py_split (if startswith line (ascii ''/'') then drop 1 line else line))"

text \<open>
  The command token followed by the positional arguments: the tokens, without a leading
  \<open>add\<close> keyword.
\<close>

definition command_parts :: "ustr \<Rightarrow> ustr list" where
  "command_parts text0 =
     (case tokens text0 of
        [] \<Rightarrow> []
      | t # ts \<Rightarrow> if py_lower t = ascii ''add'' then ts else t # ts)"


text \<open>A token: not empty, and no space in it.\<close>

definition is_token :: "ustr \<Rightarrow> bool" where
  "is_token t \<longleftrightarrow> t \<noteq> [] \<and> list_all (\<lambda>c. \<not> isspace c) t"

text \<open>The world after a call, whether it returned or raised.\<close>

fun world_of :: "world raising \<Rightarrow> world" where
  "world_of (Inl (e, w)) = w"
| "world_of (Inr w) = w"

text \<open>The text of a message as the handler reads it.\<close>

definition text_of :: "message \<Rightarrow> ustr" where
  "text_of msg = (case msg_text msg of None \<Rightarrow> [] | Some t \<Rightarrow> t)"

text \<open>The number a finite float stands for.\<close>

fun float_value :: "pyfloat \<Rightarrow> rat option" where
  "float_value (Finite neg m k) =
     Some ((if neg then - 1 else 1) * of_nat m *
           (if 0 \<le> k then 2 ^ nat k else 1 / 2 ^ nat (- k)))"
| "float_value (Infinity neg) = None"
| "float_value NaN = None"

text \<open>
  Whether the parser reads a text as a transaction that the insert raises on: the amount
  is NaN, or the note or one of the two readings of the clock cannot be encoded.
\<close>

definition store_rejects :: "clock \<Rightarrow> ustr \<Rightarrow> bool" where
  "store_rejects clk text0 =
     (case parse_telegram_transaction (date_today clk) text0 of
        Parsed p \<Rightarrow>
          tx_amount p = NaN \<or> \<not> encodable (tx_note p) \<or> \<not> encodable (date_today clk) \<or>
          \<not> encodable (datetime_now clk)
      | _ \<Rightarrow> False)"

section \<open>Strings: tokens, trimming and joining\<close>

lemmas str_defs = py_strip_def isspace_def py_split_def py_lower_def lower_char_def startswith_def

lemmas float_defs = py_float_def c_strip_def c_isspace_def to_ascii_def is_digit_def
  parse_decimal_def parse_inf_or_nan_def ascii_lower_def digits_value_def to_double_def
  bit_length.simps norm2.simps round_half_even_def

lemmas parse_defs = parse_telegram_transaction_def parse_parts_def type_map_def
  ALLOWED_CATEGORIES_def expense_def income_def

lemmas str_int_defs = py_str_int_def digits_of.simps

lemmas key_defs = telegram_enabled_def telegram_bot_token_def telegram_allowed_chat_id_def
  telegram_poll_interval_def telegram_last_update_id_def

lemmas poll_defs = poll_iteration_def read_poll_interval_def read_last_update_id_def
  process_update_def handle_telegram_message_def record_parsed_def add_transaction_record_def
  send_telegram_message_def get_config_def set_config_def DEFAULT_TELEGRAM_POLL_INTERVAL_def
  encodable_def is_surrogate_def

lemma split_acc_tokens:
  "list_all (\<lambda>c. \<not> isspace c) cur \<Longrightarrow> list_all is_token (split_acc cur cs)"
  by (induction cs arbitrary: cur) (auto simp: is_token_def)

lemma py_split_tokens: "list_all is_token (py_split s)"
  by (simp add: py_split_def split_acc_tokens)

lemma tokens_are_tokens: "list_all is_token (tokens s)"
  by (simp add: tokens_def Let_def py_split_tokens)

lemma py_strip_id:
  assumes "s \<noteq> []" and "\<not> isspace (hd s)" and "\<not> isspace (last s)"
  shows "py_strip s = s"
proof -
  have front: "dropWhile isspace s = s"
    using assms by (simp add: dropWhile_eq_self_iff)
  have rear: "dropWhile isspace (rev s) = rev s"
    using assms by (simp add: dropWhile_eq_self_iff hd_rev)
  show ?thesis by (simp add: py_strip_def front rear)
qed

lemma last_dropWhile_nonempty:
  "dropWhile P xs \<noteq> [] \<Longrightarrow> last (dropWhile P xs) = last xs"
  by (induction xs) (auto split: if_splits)

lemma py_strip_idem: "py_strip (py_strip s) = py_strip s"
proof (cases "py_strip s = []")
  case True
  have "py_strip [] = []" by (simp add: py_strip_def)
  with True show ?thesis by simp
next
  case False
  let ?ys = "dropWhile isspace s"
  let ?zs = "dropWhile isspace (rev ?ys)"
  have r: "py_strip s = rev ?zs" by (simp add: py_strip_def)
  have zs: "?zs \<noteq> []" using False r by simp
  have ys: "?ys \<noteq> []" by (metis zs dropWhile.simps(1) rev.simps(1))
  have "\<not> isspace (hd ?zs)" using zs by (rule hd_dropWhile)
  then have l: "\<not> isspace (last (py_strip s))" using zs r by (simp add: last_rev)
  have "last ?zs = last (rev ?ys)" using zs by (rule last_dropWhile_nonempty)
  also have "\<dots> = hd ?ys" using ys by (simp add: last_rev)
  finally have "hd (py_strip s) = hd ?ys" using zs r by (simp add: hd_rev)
  moreover have "\<not> isspace (hd ?ys)" using ys by (rule hd_dropWhile)
  ultimately have h: "\<not> isspace (hd (py_strip s))" by simp
  show ?thesis using False h l by (rule py_strip_id)
qed

lemma is_token_ends: "is_token t \<Longrightarrow> t \<noteq> [] \<and> \<not> isspace (hd t) \<and> \<not> isspace (last t)"
  by (cases t) (auto simp: is_token_def list_all_iff)

lemma py_join_ends:
  "xs \<noteq> [] \<Longrightarrow> list_all is_token xs \<Longrightarrow>
   py_join sep xs \<noteq> [] \<and> hd (py_join sep xs) = hd (hd xs) \<and>
   last (py_join sep xs) = last (last xs)"
proof (induction sep xs rule: py_join.induct)
  case (3 sep x y ys)
  then show ?case using is_token_ends [of x] by auto
qed (auto dest: is_token_ends)

lemma py_strip_join:
  assumes "list_all is_token xs"
  shows "py_strip (py_join sep xs) = py_join sep xs"
proof (cases "xs = []")
  case True
  then show ?thesis by (simp add: py_strip_def)
next
  case False
  have "is_token (hd xs)" "is_token (last xs)"
    using False assms by (auto simp: list_all_iff)
  then show ?thesis
    using py_join_ends [OF False assms, of sep] is_token_ends [of "hd xs"]
      is_token_ends [of "last xs"]
    by (intro py_strip_id) auto
qed

text \<open>Joining with a blank: every token after one blank, without the first blank.\<close>

lemma py_join_blank:
  "py_join (ascii '' '') xs = drop 1 (concat (map (\<lambda>t. 32 # t) xs))"
proof -
  have "py_join [32] xs = drop 1 (concat (map (\<lambda>t. 32 # t) xs))"
    by (induction "[32::nat]" xs rule: py_join.induct) simp_all
  then show ?thesis by simp
qed

section \<open>The parser\<close>

lemma parse_by_tokens:
  "parse_telegram_transaction today text0 =
     (if tokens text0 = [] then ParseError msg_empty else parse_parts today (tokens text0))"
  by (auto simp: parse_telegram_transaction_def tokens_def Let_def py_split_def)

lemma type_map_cases: "type_map c = Some ty \<Longrightarrow> ty = income \<or> ty = expense"
  by (auto simp: type_map_def split: if_splits)

lemma parse_parts_Parsed:
  assumes "parse_parts today ps = Parsed tx"
  defines "args \<equiv> (if py_lower (ps ! 0) = ascii ''add'' then drop 1 ps else ps)"
  shows "3 \<le> length args"
    and "type_map (py_lower (args ! 0)) = Some (tx_type tx)"
    and "py_float (args ! 1) = Some (tx_amount tx)"
    and "\<not> float_lt_zero (tx_amount tx)"
    and "tx_category tx = args ! 2"
    and "args ! 2 \<in> set ALLOWED_CATEGORIES"
    and "tx_note tx =
           (if 3 < length args then py_strip (py_join (ascii '' '') (drop 3 args)) else [])"
    and "tx_happened_on tx = today"
  using assms(1) unfolding args_def parse_parts_def Let_def
  by (auto split: if_splits option.splits)

lemma command_parts_eq:
  "tokens text0 \<noteq> [] \<Longrightarrow>
   command_parts text0 =
     (if py_lower (tokens text0 ! 0) = ascii ''add'' then drop 1 (tokens text0)
      else tokens text0)"
  by (cases "tokens text0") (auto simp: command_parts_def)

lemma command_parts_tokens: "list_all is_token (command_parts text0)"
  using tokens_are_tokens [of text0]
  by (cases "tokens text0") (auto simp: command_parts_def)

text \<open>
  What a successful parse returns: the type the table gives for the command token, the
  float of the second token, which is not below zero, the third token, which is an
  allowed category, the other tokens joined by single blanks, and the date of the clock.
\<close>

lemma parse_Parsed:
  assumes "parse_telegram_transaction today text0 = Parsed tx"
  shows "\<exists>cmd amt cat rest.
           command_parts text0 = cmd # amt # cat # rest \<and>
           type_map (py_lower cmd) = Some (tx_type tx) \<and>
           py_float amt = Some (tx_amount tx) \<and> \<not> float_lt_zero (tx_amount tx) \<and>
           tx_category tx = cat \<and> cat \<in> set ALLOWED_CATEGORIES \<and>
           tx_note tx = py_join (ascii '' '') rest \<and> list_all is_token rest \<and>
           tx_happened_on tx = today"
proof -
  from assms have ne: "tokens text0 \<noteq> []"
    and pp: "parse_parts today (tokens text0) = Parsed tx"
    by (auto simp: parse_by_tokens split: if_splits)
  let ?args = "command_parts text0"
  have args: "?args = (if py_lower (tokens text0 ! 0) = ascii ''add''
                       then drop 1 (tokens text0) else tokens text0)"
    by (rule command_parts_eq [OF ne])
  note facts = parse_parts_Parsed [OF pp, folded args]
  from facts(1) obtain cmd amt cat rest where shape: "?args = cmd # amt # cat # rest"
    by (cases ?args; cases "tl ?args"; cases "tl (tl ?args)") auto
  have tk: "list_all is_token rest"
    using command_parts_tokens [of text0] shape by simp
  then have strip: "py_strip (py_join (ascii '' '') rest) = py_join (ascii '' '') rest"
    by (rule py_strip_join)
  have nt: "tx_note tx = py_join (ascii '' '') rest"
    using facts(7) strip shape by (cases rest) auto
  show ?thesis
    using facts(2-6,8) shape nt tk by auto
qed

lemma allowed_categories_14: "length ALLOWED_CATEGORIES = 14 \<and> distinct ALLOWED_CATEGORIES"
  by (simp add: ALLOWED_CATEGORIES_def)

lemma parse_success_fields:
  assumes "parse_telegram_transaction today text0 = Parsed tx"
  shows "(tx_type tx = income \<or> tx_type tx = expense) \<and> \<not> float_lt_zero (tx_amount tx) \<and>
         tx_category tx \<in> set ALLOWED_CATEGORIES \<and> tx_happened_on tx = today"
  using parse_Parsed [OF assms] type_map_cases by blast

lemma msg_format_neq: "msg_format \<noteq> msg_unsupported"
  by (simp add: msg_format_def msg_unsupported_def)

lemma parse_parts_add:
  assumes "py_lower k = ascii ''add''" and "type_map (py_lower t) = Some ty"
    and "2 \<le> length rest"
  shows "parse_parts today (k # t # rest) = parse_parts today (t # rest)"
proof -
  have "py_lower t \<noteq> ascii ''help''" "py_lower t \<noteq> ascii ''start''"
    "py_lower t \<noteq> ascii ''add''"
    using assms(2) by (auto simp: type_map_def)
  moreover obtain a b rest' where "rest = a # b # rest'"
    using assms(3) by (cases rest; cases "tl rest") auto
  ultimately show ?thesis
    using assms(1,2) by (simp add: parse_parts_def Let_def)
qed

lemma parse_parts_add_short:
  assumes "py_lower k = ascii ''add''" and "length rest < 3"
  shows "parse_parts today (k # rest) =
           ParseError (if length rest < 2 then msg_format else msg_format_add)"
  using assms by (auto simp: parse_parts_def Let_def)

section \<open>The handler and the loop\<close>

lemma record_parsed_config:
  "app_config (world_of (record_parsed clk w token c t)) = app_config w"
  by (simp add: record_parsed_def send_telegram_message_def add_transaction_record_def
      split: parse_result.splits)

lemma handle_config:
  "app_config (world_of (handle_telegram_message clk w token m)) = app_config w"
  by (simp add: handle_telegram_message_def Let_def record_parsed_config
      send_telegram_message_def split: option.splits)

text \<open>
  The cursor is written before the handler runs and the handler never writes the
  configuration: however the handling of an update ends, the cursor is its id.
\<close>

lemma process_update_config:
  "app_config (world_of (process_update clk token w u)) =
     (case update_id u of
        None \<Rightarrow> app_config w
      | Some i \<Rightarrow> (app_config w)(telegram_last_update_id \<mapsto> py_str_int i))"
  by (simp add: process_update_def Let_def handle_config set_config_def split: option.splits)

lemma process_updates_cursor:
  assumes "process_updates clk token w us = Inr w'" and "us \<noteq> []"
    and "map update_id us = map Some ids"
  shows "app_config w' telegram_last_update_id = Some (py_str_int (last ids))"
  using assms
proof (induction us arbitrary: w ids)
  case Nil
  then show ?case by simp
next
  case (Cons u us)
  from Cons.prems(3) obtain i ids' where ids: "ids = i # ids'" "update_id u = Some i"
    "map update_id us = map Some ids'"
    by (cases ids) auto
  from Cons.prems(1) obtain w1 where w1: "process_update clk token w u = Inr w1"
    "process_updates clk token w1 us = Inr w'"
    by (auto split: sum.splits)
  have cfg: "app_config w1 = (app_config w)(telegram_last_update_id \<mapsto> py_str_int i)"
    using process_update_config [of clk token w u] w1(1) ids(2) by simp
  show ?case
  proof (cases "us = []")
    case True
    then show ?thesis using w1(2) cfg ids by simp
  next
    case False
    then have "ids' \<noteq> []" using ids(3) by auto
    then show ?thesis
      using Cons.IH [OF w1(2) False ids(3)] ids(1) by simp
  qed
qed

lemma last_is_Max:
  fixes ids :: "int list"
  shows "sorted_wrt (<) ids \<Longrightarrow> ids \<noteq> [] \<Longrightarrow> last ids = Max (set ids)"
proof (induction ids)
  case Nil
  then show ?case by simp
next
  case (Cons x xs)
  show ?case
  proof (cases "xs = []")
    case True
    then show ?thesis by simp
  next
    case False
    then have "last xs = Max (set xs)" using Cons by simp
    moreover have "x < Max (set xs)"
      using Cons.prems(1) False Max_in [of "set xs"] by auto
    ultimately show ?thesis using False by (simp add: max_def)
  qed
qed

text \<open>
  When the loop over a batch of strictly increasing ids comes to its end, the cursor is
  the greatest id of the batch.
\<close>

lemma cursor_is_max:
  assumes "process_updates clk token w us = Inr w'" and "us \<noteq> []"
    and "map update_id us = map Some ids" and "sorted_wrt (<) ids"
  shows "get_config w' telegram_last_update_id d = py_str_int (Max (set ids))"
proof -
  have "ids \<noteq> []" using assms(2,3) by auto
  then show ?thesis
    using process_updates_cursor [OF assms(1-3)] last_is_Max [OF assms(4)]
    by (simp add: get_config_def)
qed

lemma not_lt_not_ge: "\<not> float_lt_zero a \<Longrightarrow> \<not> float_ge_zero a \<Longrightarrow> a = NaN"
  by (cases a) auto

lemma encodable_category: "c \<in> set ALLOWED_CATEGORIES \<Longrightarrow> encodable c"
  by (auto simp: ALLOWED_CATEGORIES_def encodable_def is_surrogate_def)

lemma encodable_type: "encodable income \<and> encodable expense"
  by (simp add: income_def expense_def encodable_def is_surrogate_def)

text \<open>
  The handler raises on one kind of message only: a command that the parser accepts and
  the insert does not.
\<close>

lemma record_parsed_raises:
  assumes "record_parsed clk w token c t = Inl x"
  shows "snd x = w \<and> store_rejects clk t"
proof (cases "parse_telegram_transaction (date_today clk) t")
  case (Parsed p)
  have f: "(tx_type p = income \<or> tx_type p = expense) \<and> \<not> float_lt_zero (tx_amount p) \<and>
           tx_category p \<in> set ALLOWED_CATEGORIES \<and> tx_happened_on p = date_today clk"
    using parse_success_fields [OF Parsed] by simp
  then have enc: "encodable (tx_type p)" "encodable (tx_category p)"
    using encodable_type encodable_category by auto
  show ?thesis
    using assms Parsed f enc not_lt_not_ge [of "tx_amount p"]
    by (auto simp: record_parsed_def add_transaction_record_def store_rejects_def
        split: if_splits)
qed (use assms in \<open>simp_all add: record_parsed_def\<close>)

lemma handle_raises:
  assumes "handle_telegram_message clk w token m = Inl x"
  shows "snd x = w \<and> store_rejects clk (text_of m)"
proof -
  from assms obtain c where "record_parsed clk w token c (text_of m) = Inl x"
    by (auto simp: handle_telegram_message_def Let_def text_of_def
        split: option.splits if_splits)
  from record_parsed_raises [OF this] show ?thesis .
qed

lemma handle_returns:
  assumes "\<not> store_rejects clk (text_of m)"
  shows "\<exists>w'. handle_telegram_message clk w token m = Inr w'"
proof (cases "handle_telegram_message clk w token m")
  case (Inl x)
  then show ?thesis
    using handle_raises [OF Inl] assms by simp
next
  case (Inr w')
  then show ?thesis by simp
qed

text \<open>A batch with no such message is processed to its end.\<close>

lemma process_updates_returns:
  assumes "list_all (\<lambda>u. case message u of
                          None \<Rightarrow> True
                        | Some m \<Rightarrow> \<not> store_rejects clk (text_of m)) us"
  shows "\<exists>w'. process_updates clk token w us = Inr w'"
  using assms
proof (induction us arbitrary: w)
  case Nil
  then show ?case by simp
next
  case (Cons u us)
  have "\<exists>w1. process_update clk token w u = Inr w1"
    using Cons.prems handle_returns
    by (auto simp: process_update_def Let_def split: option.splits)
  then obtain w1 where "process_update clk token w u = Inr w1" ..
  then show ?case using Cons by simp
qed

text \<open>The settings form stores the allowed chat id trimmed.\<close>

lemma save_settings_trimmed:
  "get_config (save_settings w e t a) telegram_allowed_chat_id d = py_strip a \<and>
   py_strip (py_strip a) = py_strip a"
  by (simp add: save_settings_def Let_def set_config_def get_config_def py_strip_idem)

section \<open>The poller threads\<close>

text \<open>Every live thread is the one that \<^verbatim>\<open>telegram_thread\<close> holds.\<close>

lemma live_start:
  assumes "{i. i < length (threads p) \<and> threads p ! i} \<subseteq> set_option (telegram_thread p)"
  shows "{i. i < length (threads (start_telegram_poller p)) \<and>
             threads (start_telegram_poller p) ! i}
         \<subseteq> set_option (telegram_thread (start_telegram_poller p))"
proof (cases "case telegram_thread p of None \<Rightarrow> False | Some t \<Rightarrow> threads p ! t")
  case True
  then show ?thesis using assms by (simp add: start_telegram_poller_def)
next
  case False
  have none: "\<not> threads p ! i" if "i < length (threads p)" for i
  proof
    assume "threads p ! i"
    then have "i \<in> set_option (telegram_thread p)" using assms that by auto
    then show False using False \<open>threads p ! i\<close> by (auto split: option.splits)
  qed
  show ?thesis
  proof
    fix i
    assume "i \<in> {i. i < length (threads (start_telegram_poller p)) \<and>
                     threads (start_telegram_poller p) ! i}"
    then have i: "i < Suc (length (threads p))" "(threads p @ [True]) ! i"
      using False by (simp_all add: start_telegram_poller_def)
    have "i = length (threads p)"
    proof (rule ccontr)
      assume "i \<noteq> length (threads p)"
      then have lt: "i < length (threads p)" using i(1) by simp
      then have "threads p ! i" using i(2) by (simp add: nth_append)
      then show False using none [OF lt] by simp
    qed
    then show "i \<in> set_option (telegram_thread (start_telegram_poller p))"
      using False by (simp add: start_telegram_poller_def)
  qed
qed

lemma live_exit:
  assumes "{i. i < length (threads p) \<and> threads p ! i} \<subseteq> set_option (telegram_thread p)"
  shows "{i. i < length (threads (thread_exit t p)) \<and> threads (thread_exit t p) ! i}
         \<subseteq> set_option (telegram_thread (thread_exit t p))"
proof
  fix i
  assume "i \<in> {i. i < length (threads (thread_exit t p)) \<and> threads (thread_exit t p) ! i}"
  then have i: "i < length (threads p)" "(threads p)[t := False] ! i"
    by (simp_all add: thread_exit_def)
  have "i \<noteq> t" using i by auto
  then have "threads p ! i" using i by simp
  then have "i \<in> set_option (telegram_thread p)" using assms i(1) by auto
  then show "i \<in> set_option (telegram_thread (thread_exit t p))"
    by (simp add: thread_exit_def)
qed

lemma live_run:
  "{i. i < length (threads p) \<and> threads p ! i} \<subseteq> set_option (telegram_thread p) \<Longrightarrow>
   {i. i < length (threads (run_events p es)) \<and> threads (run_events p es) ! i}
     \<subseteq> set_option (telegram_thread (run_events p es))"
proof (induction es arbitrary: p)
  case Nil
  then show ?case by simp
next
  case (Cons e es)
  then show ?case
    by (cases e) (simp_all add: live_start live_exit)
qed

lemma live_count:
  assumes "{i. i < length (threads p) \<and> threads p ! i} \<subseteq> set_option (telegram_thread p)"
  shows "alive_threads p \<le> 1"
proof -
  have "finite (set_option (telegram_thread p))" "card (set_option (telegram_thread p)) \<le> 1"
    by (cases "telegram_thread p"; simp)+
  then have "card {i. i < length (threads p) \<and> threads p ! i} \<le> 1"
    using assms card_mono le_trans by blast
  then show ?thesis
    by (simp add: alive_threads_def length_filter_conv_card)
qed

section \<open>The claims\<close>

text \<open>
  C1.  The loop writes the id of each update as the cursor before it handles the message
  of that update, and after a batch of strictly increasing ids the cursor is the greatest
  id, whatever the messages were.  The first half is \<open>process_update_config\<close> and, for a
  batch that is processed to its end, the second is \<open>cursor_is_max\<close>.  The batch below is
  not processed to its end: its first message is a command with the amount \<open>nan\<close>, the
  parser accepts it, the insert raises, and the loop stops with the cursor at 1 and the
  update 2 unread.
\<close>

theorem batch_stops_at_nan:
  "process_updates
     \<lparr>date_today = ascii ''2026-11-03'', datetime_now = ascii ''2026-11-03T12:00:00''\<rparr>
     (ascii ''T'')
     \<lparr>app_config = Map.empty, transactions = [], sent = []\<rparr>
     [\<lparr>update_id = Some 1,
       message = Some \<lparr>msg_text = Some (ascii ''/expense nan '' @ [0x9910, 0x996E]),
                       msg_chat = Some \<lparr>chat_id = Some 7\<rparr>\<rparr>\<rparr>,
      \<lparr>update_id = Some 2, message = None\<rparr>] =
   Inl (IntegrityError,
     \<lparr>app_config = [telegram_last_update_id \<mapsto> ascii ''1''], transactions = [], sent = []\<rparr>) \<and>
   ascii ''1'' \<noteq> py_str_int (Max {1, 2})"
  by (simp add: poll_defs key_defs str_int_defs parse_defs str_defs float_defs Let_def)

text \<open>
  C2.  When the answer to the request of a turn has \<open>ok\<close> false, the turn ends in a sleep
  and leaves the world as it was: the cursor is not changed and no transaction is added.
\<close>

theorem fetch_not_ok_no_change:
  assumes "fetch (py_strip (get_config w telegram_bot_token [])) (read_last_update_id w + 1) =
             Response False result"
  shows "\<exists>n. poll_iteration clk fetch w = Inr (Sleep n, w)"
  using assms by (simp add: poll_iteration_def Let_def)

theorem fetch_not_ok_no_change_witness:
  "poll_iteration
     \<lparr>date_today = ascii ''2026-11-03'', datetime_now = ascii ''2026-11-03T12:00:00''\<rparr>
     (\<lambda>token offset. Response False [])
     \<lparr>app_config = [telegram_enabled \<mapsto> ascii ''1'', telegram_bot_token \<mapsto> ascii ''T'',
                    telegram_last_update_id \<mapsto> ascii ''41''],
      transactions = [], sent = []\<rparr> =
   Inr (Sleep 5,
     \<lparr>app_config = [telegram_enabled \<mapsto> ascii ''1'', telegram_bot_token \<mapsto> ascii ''T'',
                    telegram_last_update_id \<mapsto> ascii ''41''],
      transactions = [], sent = []\<rparr>)"
proof -
  let ?w = "\<lparr>app_config = [telegram_enabled \<mapsto> ascii ''1'', telegram_bot_token \<mapsto> ascii ''T'',
                           telegram_last_update_id \<mapsto> ascii ''41''],
             transactions = [], sent = []\<rparr>"
  let ?clk = "\<lparr>date_today = ascii ''2026-11-03'', datetime_now = ascii ''2026-11-03T12:00:00''\<rparr>"
  have "\<exists>n. poll_iteration ?clk (\<lambda>token offset. Response False []) ?w = Inr (Sleep n, ?w)"
    by (rule fetch_not_ok_no_change) simp
  moreover have "n = 5"
    if "poll_iteration ?clk (\<lambda>token offset. Response False []) ?w = Inr (Sleep n, ?w)" for n
    using that
    by (simp add: poll_defs key_defs str_int_defs py_int_def float_defs str_defs Let_def
        split: if_splits)
  ultimately show ?thesis by blast
qed

text \<open>
  C3.  A message from a chat with an id whose text, trimmed and in lower case, is
  \<open>/myid\<close> or \<open>myid\<close> gets one reply, which ends in the decimal form of the chat id.
  Nothing else changes, whatever the configuration holds: the allow-list is not read
  and no transaction is added.
\<close>

theorem myid_bypasses_allow_list:
  assumes "msg_chat msg = Some ch" and "chat_id ch = Some c"
    and "py_lower (py_strip (text_of msg)) = ascii ''/myid'' \<or>
         py_lower (py_strip (text_of msg)) = ascii ''myid''"
  shows "handle_telegram_message clk w token msg =
           Inr (w\<lparr>sent := sent w @ [(token, c, msg_myid c)]\<rparr>) \<and>
         (\<exists>pre. msg_myid c = pre @ py_str_int c)"
  using assms
  by (auto simp add: handle_telegram_message_def send_telegram_message_def msg_myid_def
      text_of_def)

theorem myid_bypasses_allow_list_witness:
  "handle_telegram_message
     \<lparr>date_today = ascii ''2026-11-03'', datetime_now = ascii ''2026-11-03T12:00:00''\<rparr>
     \<lparr>app_config = [telegram_allowed_chat_id \<mapsto> ascii ''999''], transactions = [], sent = []\<rparr>
     (ascii ''T'')
     \<lparr>msg_text = Some (ascii '' /MyID ''), msg_chat = Some \<lparr>chat_id = Some 42\<rparr>\<rparr> =
   Inr \<lparr>app_config = [telegram_allowed_chat_id \<mapsto> ascii ''999''], transactions = [],
        sent = [(ascii ''T'', 42, [0x5F53, 0x524D] @ ascii '' chat id: 42'')]\<rparr>"
proof -
  let ?msg = "\<lparr>msg_text = Some (ascii '' /MyID ''), msg_chat = Some \<lparr>chat_id = Some 42\<rparr>\<rparr>"
  have a: "msg_chat ?msg = Some \<lparr>chat_id = Some 42\<rparr>" by simp
  have b: "chat_id \<lparr>chat_id = Some 42\<rparr> = Some 42" by simp
  have c: "py_lower (py_strip (text_of ?msg)) = ascii ''/myid'' \<or>
           py_lower (py_strip (text_of ?msg)) = ascii ''myid''"
    by (simp add: text_of_def str_defs)
  have d: "msg_myid 42 = [0x5F53, 0x524D] @ ascii '' chat id: 42''"
    by (simp add: msg_myid_def str_int_defs)
  show ?thesis
    using myid_bypasses_allow_list [OF a b c] d by simp
qed




text \<open>
  C5.  The text \<open>/expense 32.5\<close>, the category dining and the note lunch parse to an
  expense of 32.5 (that is \<open>65 * 2\<^sup>-\<^sup>1\<close>) in that category, with that note and the date of
  the clock.  A note of three words, with runs of blanks and a tab between them and a
  blank after them, comes out as the three words with one blank between two of them.
  In every successful parse the category is the third of the command parts, and the
  note is the parts after it, each after one blank (the code point 32), without the first
  blank; none of these parts is empty or has a space in it.
\<close>

theorem parse_expense_example:
  "parse_telegram_transaction today
     (ascii ''/expense 32.5 '' @ [0x9910, 0x996E] @ ascii '' '' @ [0x5348, 0x996D]) =
     Parsed \<lparr>tx_type = ascii ''expense'', tx_amount = Finite False 65 (- 1),
             tx_category = [0x9910, 0x996E], tx_note = [0x5348, 0x996D],
             tx_happened_on = today\<rparr> \<and>
   float_value (Finite False 65 (- 1)) = Some (65 / 2) \<and>
   parse_telegram_transaction today
     (ascii ''/expense 32.5 '' @ [0x9910, 0x996E] @ ascii ''  lunch   with '' @ [9] @
      ascii ''tea '') =
     Parsed \<lparr>tx_type = ascii ''expense'', tx_amount = Finite False 65 (- 1),
             tx_category = [0x9910, 0x996E], tx_note = ascii ''lunch with tea'',
             tx_happened_on = today\<rparr> \<and>
   (\<forall>text0 tx.
      parse_telegram_transaction today text0 = Parsed tx \<longrightarrow>
      (\<exists>cmd amt cat rest.
         command_parts text0 = cmd # amt # cat # rest \<and> list_all is_token rest \<and>
         tx_category tx = cat \<and>
         tx_note tx = drop 1 (concat (map (\<lambda>t. 32 # t) rest))))"
proof (intro conjI allI impI)
  show "parse_telegram_transaction today
     (ascii ''/expense 32.5 '' @ [0x9910, 0x996E] @ ascii '' '' @ [0x5348, 0x996D]) =
     Parsed \<lparr>tx_type = ascii ''expense'', tx_amount = Finite False 65 (- 1),
             tx_category = [0x9910, 0x996E], tx_note = [0x5348, 0x996D],
             tx_happened_on = today\<rparr>"
    by (simp add: parse_defs str_defs float_defs Let_def)
  show "float_value (Finite False 65 (- 1)) = Some (65 / 2)"
    by simp
  show "parse_telegram_transaction today
     (ascii ''/expense 32.5 '' @ [0x9910, 0x996E] @ ascii ''  lunch   with '' @ [9] @
      ascii ''tea '') =
     Parsed \<lparr>tx_type = ascii ''expense'', tx_amount = Finite False 65 (- 1),
             tx_category = [0x9910, 0x996E], tx_note = ascii ''lunch with tea'',
             tx_happened_on = today\<rparr>"
    by (simp add: parse_defs str_defs float_defs Let_def)
next
  fix text0 tx
  assume "parse_telegram_transaction today text0 = Parsed tx"
  from parse_Parsed [OF this]
  show "\<exists>cmd amt cat rest.
         command_parts text0 = cmd # amt # cat # rest \<and> list_all is_token rest \<and>
         tx_category tx = cat \<and>
         tx_note tx = drop 1 (concat (map (\<lambda>t. 32 # t) rest))"
    unfolding py_join_blank by blast
qed

theorem parse_expense_example_witness:
  "command_parts
     (ascii ''/expense 32.5 '' @ [0x9910, 0x996E] @ ascii ''  lunch   with '' @ [9] @
      ascii ''tea '') =
     [ascii ''expense'', ascii ''32.5'', [0x9910, 0x996E], ascii ''lunch'', ascii ''with'',
      ascii ''tea''] \<and>
   drop 1 (concat (map (\<lambda>t. 32 # t) [ascii ''lunch'', ascii ''with'', ascii ''tea''])) =
     ascii ''lunch with tea''"
proof -
  let ?t = "ascii ''/expense 32.5 '' @ [0x9910, 0x996E] @ ascii ''  lunch   with '' @ [9] @
            ascii ''tea ''"
  let ?tx = "\<lparr>tx_type = ascii ''expense'', tx_amount = Finite False 65 (- 1),
              tx_category = [0x9910, 0x996E], tx_note = ascii ''lunch with tea'',
              tx_happened_on = ascii ''2026-11-03''\<rparr>"
  note ex = parse_expense_example [of "ascii ''2026-11-03''"]
  from ex have p: "parse_telegram_transaction (ascii ''2026-11-03'') ?t = Parsed ?tx"
    by blast
  from ex have
    "parse_telegram_transaction (ascii ''2026-11-03'') ?t = Parsed ?tx \<longrightarrow>
     (\<exists>cmd amt cat rest.
        command_parts ?t = cmd # amt # cat # rest \<and> list_all is_token rest \<and>
        tx_category ?tx = cat \<and>
        tx_note ?tx = drop 1 (concat (map (\<lambda>t. 32 # t) rest)))"
    by blast
  with p obtain cmd amt cat rest where r:
    "command_parts ?t = cmd # amt # cat # rest"
    "tx_note ?tx = drop 1 (concat (map (\<lambda>t. 32 # t) rest))"
    by blast
  have cp: "command_parts ?t =
     [ascii ''expense'', ascii ''32.5'', [0x9910, 0x996E], ascii ''lunch'', ascii ''with'',
      ascii ''tea'']"
    by (simp add: command_parts_def tokens_def str_defs Let_def)
  from r(1) cp have "rest = [ascii ''lunch'', ascii ''with'', ascii ''tea'']"
    by simp
  with r(2) cp show ?thesis by simp
qed

text \<open>
  C6.  A text whose first token, in lower case, is not \<open>help\<close>, \<open>start\<close> or \<open>add\<close> and is
  not in the table of types is answered with the error of an unsupported command when it
  has three tokens or more.  With fewer tokens the check of the number of tokens comes
  first, and the answer is the format error with its example.
\<close>

theorem unsupported_command:
  assumes "tokens text0 = t # ts"
    and "py_lower t \<noteq> ascii ''help''" and "py_lower t \<noteq> ascii ''start''"
    and "py_lower t \<noteq> ascii ''add''" and "type_map (py_lower t) = None"
  shows "parse_telegram_transaction today text0 =
           ParseError (if length (t # ts) < 3 then msg_format else msg_unsupported)"
  using assms by (simp add: parse_by_tokens parse_parts_def Let_def)

theorem unsupported_command_witness:
  "parse_telegram_transaction (ascii ''2026-11-03'') (ascii ''/foo 12 bar'') =
     ParseError msg_unsupported"
proof -
  have tk: "tokens (ascii ''/foo 12 bar'') = [ascii ''foo'', ascii ''12'', ascii ''bar'']"
    by (simp add: tokens_def str_defs Let_def)
  have lw: "py_lower (ascii ''foo'') = ascii ''foo''"
    by (simp add: str_defs)
  have tm: "type_map (ascii ''foo'') = None"
    by (simp add: type_map_def)
  show ?thesis
    using unsupported_command [of "ascii ''/foo 12 bar''" "ascii ''foo''"
        "[ascii ''12'', ascii ''bar'']" "ascii ''2026-11-03''"] tk lw tm
    by simp
qed

theorem unsupported_command_counterexample:
  "tokens (ascii ''/foo'') = [ascii ''foo''] \<and>
   py_lower (ascii ''foo'') \<noteq> ascii ''help'' \<and> py_lower (ascii ''foo'') \<noteq> ascii ''start'' \<and>
   py_lower (ascii ''foo'') \<noteq> ascii ''add'' \<and> type_map (py_lower (ascii ''foo'')) = None \<and>
   parse_telegram_transaction (ascii ''2026-11-03'') (ascii ''/foo'') = ParseError msg_format \<and>
   msg_format \<noteq> msg_unsupported"
  by (simp add: parse_defs str_defs tokens_def Let_def msg_format_neq)

text \<open>
  C7.  The text \<open>/add\<close>, the word for income, \<open>100\<close> and the category salary parse to an
  income of 100 (that is \<open>25 * 2\<^sup>2\<close>) in that category with an empty note.  An \<open>add\<close>
  followed by a token of the table of types and two or more arguments parses as the
  text without the \<open>add\<close> does.  An \<open>add\<close> followed by fewer than three tokens is answered
  with a format error and its example: that of the direct command when fewer than two
  tokens follow, that of the \<open>add\<close> command when two do.
\<close>

theorem add_command:
  "parse_telegram_transaction today
     (ascii ''/add '' @ [0x6536, 0x5165] @ ascii '' 100 '' @ [0x5DE5, 0x8D44]) =
     Parsed \<lparr>tx_type = ascii ''income'', tx_amount = Finite False 25 2,
             tx_category = [0x5DE5, 0x8D44], tx_note = [], tx_happened_on = today\<rparr> \<and>
   float_value (Finite False 25 2) = Some 100 \<and>
   (\<forall>text0 text1 k t rest ty.
      tokens text0 = k # t # rest \<and> py_lower k = ascii ''add'' \<and>
      type_map (py_lower t) = Some ty \<and> 2 \<le> length rest \<and> tokens text1 = t # rest \<longrightarrow>
      parse_telegram_transaction today text0 = parse_telegram_transaction today text1) \<and>
   (\<forall>text0 k rest.
      tokens text0 = k # rest \<and> py_lower k = ascii ''add'' \<and> length rest < 3 \<longrightarrow>
      parse_telegram_transaction today text0 =
        ParseError (if length rest < 2 then msg_format else msg_format_add))"
proof (intro conjI allI impI)
  show "parse_telegram_transaction today
     (ascii ''/add '' @ [0x6536, 0x5165] @ ascii '' 100 '' @ [0x5DE5, 0x8D44]) =
     Parsed \<lparr>tx_type = ascii ''income'', tx_amount = Finite False 25 2,
             tx_category = [0x5DE5, 0x8D44], tx_note = [], tx_happened_on = today\<rparr>"
    by (simp add: parse_defs str_defs float_defs Let_def)
  show "float_value (Finite False 25 2) = Some 100"
    by simp
next
  fix text0 text1 k t rest ty
  assume "tokens text0 = k # t # rest \<and> py_lower k = ascii ''add'' \<and>
      type_map (py_lower t) = Some ty \<and> 2 \<le> length rest \<and> tokens text1 = t # rest"
  then show "parse_telegram_transaction today text0 = parse_telegram_transaction today text1"
    by (simp add: parse_by_tokens parse_parts_add)
next
  fix text0 k rest
  assume "tokens text0 = k # rest \<and> py_lower k = ascii ''add'' \<and> length rest < 3"
  then show "parse_telegram_transaction today text0 =
        ParseError (if length rest < 2 then msg_format else msg_format_add)"
    by (simp add: parse_by_tokens parse_parts_add_short)
qed

theorem add_command_witness:
  "parse_telegram_transaction (ascii ''2026-11-03'') (ascii ''/ADD income 100'') =
     ParseError msg_format_add \<and>
   parse_telegram_transaction (ascii ''2026-11-03'')
     (ascii ''/add income 100 '' @ [0x5DE5, 0x8D44]) =
   parse_telegram_transaction (ascii ''2026-11-03'')
     (ascii ''income 100 '' @ [0x5DE5, 0x8D44])"
proof -
  note ac = add_command [of "ascii ''2026-11-03''"]
  have tk: "tokens (ascii ''/ADD income 100'') = [ascii ''ADD'', ascii ''income'', ascii ''100'']"
    by (simp add: tokens_def str_defs Let_def)
  have lw: "py_lower (ascii ''ADD'') = ascii ''add''"
    by (simp add: str_defs)
  from ac have short: "tokens (ascii ''/ADD income 100'') = ascii ''ADD'' # [ascii ''income'', ascii ''100''] \<and>
        py_lower (ascii ''ADD'') = ascii ''add'' \<and> length [ascii ''income'', ascii ''100''] < 3 \<longrightarrow>
      parse_telegram_transaction (ascii ''2026-11-03'') (ascii ''/ADD income 100'') =
        ParseError (if length [ascii ''income'', ascii ''100''] < 2 then msg_format
                    else msg_format_add)"
    by blast
  have one: "parse_telegram_transaction (ascii ''2026-11-03'') (ascii ''/ADD income 100'') =
     ParseError msg_format_add"
    using short tk lw by simp
  let ?a = "ascii ''/add income 100 '' @ [0x5DE5, 0x8D44]"
  let ?b = "ascii ''income 100 '' @ [0x5DE5, 0x8D44]"
  have ta: "tokens ?a = ascii ''add'' # ascii ''income'' # [ascii ''100'', [0x5DE5, 0x8D44]]"
    by (simp add: tokens_def str_defs Let_def)
  have tb: "tokens ?b = ascii ''income'' # [ascii ''100'', [0x5DE5, 0x8D44]]"
    by (simp add: tokens_def str_defs Let_def)
  have la: "py_lower (ascii ''add'') = ascii ''add''"
    by (simp add: str_defs)
  have tm: "type_map (py_lower (ascii ''income'')) = Some income"
    by (simp add: type_map_def str_defs)
  from ac have "tokens ?a = ascii ''add'' # ascii ''income'' # [ascii ''100'', [0x5DE5, 0x8D44]] \<and>
      py_lower (ascii ''add'') = ascii ''add'' \<and>
      type_map (py_lower (ascii ''income'')) = Some income \<and>
      2 \<le> length [ascii ''100'', [0x5DE5, 0x8D44]] \<and>
      tokens ?b = ascii ''income'' # [ascii ''100'', [0x5DE5, 0x8D44]] \<longrightarrow>
      parse_telegram_transaction (ascii ''2026-11-03'') ?a =
      parse_telegram_transaction (ascii ''2026-11-03'') ?b"
    by blast
  then have two: "parse_telegram_transaction (ascii ''2026-11-03'') ?a =
      parse_telegram_transaction (ascii ''2026-11-03'') ?b"
    using ta tb la tm by simp
  show ?thesis using one two by simp
qed

text \<open>
  C8.  A successful parse returns a transaction of type income or expense, with an
  amount that is at least zero, a category among the fourteen allowed ones and the date
  of the clock.  The type, the category and the date are so (\<open>parse_success_fields\<close>), and
  the amount is never below zero; but the text \<open>/expense nan\<close> with the category dining
  is parsed with success, and its amount is NaN, which is not at least zero.
\<close>

theorem parse_nan_amount:
  "parse_telegram_transaction today (ascii ''/expense nan '' @ [0x9910, 0x996E]) =
     Parsed \<lparr>tx_type = ascii ''expense'', tx_amount = NaN, tx_category = [0x9910, 0x996E],
             tx_note = [], tx_happened_on = today\<rparr> \<and>
   \<not> float_lt_zero NaN \<and> \<not> float_ge_zero NaN"
  by (simp add: parse_defs str_defs float_defs Let_def)

text \<open>
  C9.  \<^verbatim>\<open>start_telegram_poller\<close> holds the lock from its test to its start of a thread, so
  calls of it and ends of threads happen one after the other.  After any sequence of
  them from the start of the process at most one polling thread is alive, and after two
  calls in a row exactly one is.
\<close>

theorem at_most_one_poller:
  "alive_threads (run_events initial_poller es) \<le> 1 \<and>
   alive_threads (start_telegram_poller (start_telegram_poller initial_poller)) = 1"
proof
  have "{i. i < length (threads initial_poller) \<and> threads initial_poller ! i}
          \<subseteq> set_option (telegram_thread initial_poller)"
    by (simp add: initial_poller_def)
  then show "alive_threads (run_events initial_poller es) \<le> 1"
    by (intro live_count live_run)
  show "alive_threads (start_telegram_poller (start_telegram_poller initial_poller)) = 1"
    by (simp add: alive_threads_def start_telegram_poller_def initial_poller_def)
qed

text \<open>
  C10.  A message with no chat, or with a chat that has no id, is dropped: the handler
  returns the world as it was, so no reply is sent and no transaction is added, whatever
  the text is.
\<close>

theorem handle_without_chat_id:
  "handle_telegram_message clk w token (msg\<lparr>msg_chat := None\<rparr>) = Inr w \<and>
   handle_telegram_message clk w token (msg\<lparr>msg_chat := Some (ch\<lparr>chat_id := None\<rparr>)\<rparr>) = Inr w"
  by (simp add: handle_telegram_message_def)

end
